theory Spec2Isabelle
  imports Main
begin

section \<open>rbd-mirror leader election: \<^verbatim>\<open>tools/rbd_mirror/LeaderWatcher.h\<close>\<close>

text \<open>
  The header declares the class \<^verbatim>\<open>LeaderWatcher\<close> and defines, inline, three nested
  helpers: \<^verbatim>\<open>LeaderLock\<close> (a \<^verbatim>\<open>librbd::ManagedLock\<close> whose hooks forward to the watcher),
  \<^verbatim>\<open>HandlePayloadVisitor\<close> (dispatch of a decoded notification) and \<^verbatim>\<open>C_GetLocker\<close>
  (completion of the get-locker request). The bodies of the \<^verbatim>\<open>LeaderWatcher\<close> methods
  themselves are not in the header.

  The embedding is sequential: a method is a function from the state before the call to
  the state after it. \<^verbatim>\<open>Mutex::Locker\<close> guards are scoped locks with no effect on the
  values computed, and are not represented.
\<close>

subsection \<open>Values passed around\<close>

text \<open>A \<^verbatim>\<open>Context *\<close> is a completion callback; only its identity matters here.\<close>

type_synonym Context = nat

text \<open>
  Modelled from the spec: \<^verbatim>\<open>librbd::managed_lock::Locker\<close> (librbd/managed_lock/Types.h is
  not part of the sources). The spec describes it as the pair of the owner's id and its
  network address.
\<close>

record locker =
  owner_id :: string
  address :: string

text \<open>
  The payload types named by the four \<^verbatim>\<open>handle_payload\<close> overloads
  (tools/rbd_mirror/leader_watcher/Types.h is not part of the sources). The alternative
  held by the variant selects the overload.
\<close>

datatype payload =
    HeartbeatPayload
  | LockAcquiredPayload
  | LockReleasedPayload
  | UnknownPayload

subsection \<open>The managed lock underneath \<^verbatim>\<open>LeaderLock\<close>\<close>

text \<open>
  Modelled from the spec: the state of \<^verbatim>\<open>librbd::ManagedLock\<close>, the \<^verbatim>\<open>Parent\<close> of
  \<^verbatim>\<open>LeaderLock\<close> (librbd/ManagedLock.h is not part of the sources). The lock is
  unlocked, acquiring, post-acquiring, locked, pre-releasing or releasing.
\<close>

datatype lock_state =
    STATE_UNLOCKED
  | STATE_ACQUIRING
  | STATE_POST_ACQUIRING
  | STATE_LOCKED
  | STATE_PRE_RELEASING
  | STATE_RELEASING

text \<open>
  Modelled from the spec: the observers and the setter of \<^verbatim>\<open>Parent\<close> that \<^verbatim>\<open>LeaderLock\<close>
  uses. Each observer answers for the state of its name; the setter enters the
  post-acquiring state.
\<close>

definition is_state_post_acquiring :: "lock_state \<Rightarrow> bool" where
  "is_state_post_acquiring m = (m = STATE_POST_ACQUIRING)"

definition is_state_locked :: "lock_state \<Rightarrow> bool" where
  "is_state_locked m = (m = STATE_LOCKED)"

definition set_state_post_acquiring :: "lock_state \<Rightarrow> lock_state" where
  "set_state_post_acquiring m = STATE_POST_ACQUIRING"

subsection \<open>The fields of \<^verbatim>\<open>LeaderWatcher\<close>\<close>

text \<open>
  The callback handed to \<^verbatim>\<open>schedule_timer_task\<close> is a pointer to one of the watcher's
  methods without arguments; a pending timer task keeps the arguments it was scheduled
  with, but for the name, which only labels log lines.
\<close>

datatype timer_callback =
    Cb_acquire_leader_lock
  | Cb_break_leader_lock
  | Cb_get_locker
  | Cb_notify_heartbeat

record timer_task =
  task_delay_factor :: int
  task_leader :: bool
  task_callback :: timer_callback

text \<open>
  Modelled from the spec: the role of an instance (section 3 of the spec; the class has
  no such field) and the operations it issues against its collaborators, named as the
  steps of the state diagram in the header.
\<close>

datatype role = Uninitialized | Initializing | Leader | NonLeader | ShuttingDown

datatype op =
    CREATE_OBJECT
  | REGISTER_WATCH
  | ACQUIRE_LEADER_LOCK
  | GET_LOCKER
  | BREAK_LOCK
  | INIT_STATUS_WATCHER
  | NOTIFY_LISTENERS_post_acquire
  | NOTIFY_LOCK_ACQUIRED
  | NOTIFY_LISTENERS_pre_release
  | SHUT_DOWN_STATUS_WATCHER
  | RELEASE_LEADER_LOCK
  | NOTIFY_LOCK_RELEASED
  | SHUT_DOWN_LEADER_LOCK
  | UNREGISTER_WATCH

text \<open>
  \<^verbatim>\<open>
  uint64_t m_notifier_id;
  Context *m_on_finish = nullptr;
  Context *m_on_shut_down_finish = nullptr;
  int m_acquire_attempts = 0;
  int m_notify_error = 0;
  std::unique_ptr<LeaderLock> m_leader_lock;
  std::unique_ptr<MirrorStatusWatcher> m_status_watcher;
  librbd::managed_lock::Locker m_locker;
  Context *m_timer_task = nullptr;
  \<close>
  \<open>m_leader_lock\<close> is the state of the managed lock inside the \<^verbatim>\<open>LeaderLock\<close>;
  \<open>m_status_watcher\<close> tells whether the status watcher is up; an empty locker is \<open>None\<close>.
  The last four fields are not fields of the class: they record the role, whether the
  watch is registered with the transport, the operations issued so far and the contexts
  completed so far, each with its result.
\<close>

record leader_watcher =
  m_notifier_id :: nat
  m_on_finish :: "Context option"
  m_on_shut_down_finish :: "Context option"
  m_acquire_attempts :: int
  m_notify_error :: int
  m_leader_lock :: lock_state
  m_status_watcher :: bool
  m_locker :: "locker option"
  m_timer_task :: "timer_task option"
  role :: role
  watch_registered :: bool
  issued :: "op list"
  completed :: "(Context \<times> int) list"

text \<open>
  Modelled from the spec: the instance the constructor builds (its definition is not in
  the header). The fields take the member initialisers of the header; the instance is
  uninitialized, its lock unlocked, no watch registered, nothing issued or completed.
\<close>

definition LeaderWatcher :: "nat \<Rightarrow> leader_watcher" where
  "LeaderWatcher notifier_id =
     \<lparr>m_notifier_id = notifier_id, m_on_finish = None, m_on_shut_down_finish = None,
      m_acquire_attempts = 0, m_notify_error = 0, m_leader_lock = STATE_UNLOCKED,
      m_status_watcher = False, m_locker = None, m_timer_task = None,
      role = Uninitialized, watch_registered = False, issued = [], completed = []\<rparr>"

subsection \<open>Calls into the watcher\<close>

text \<open>
  The inline helpers end in a call of a \<^verbatim>\<open>LeaderWatcher\<close> method that the header only
  declares. A call is named by the method and its arguments.
\<close>

datatype call =
    Handle_post_acquire_leader_lock int Context
  | Handle_pre_release_leader_lock Context
  | Handle_post_release_leader_lock int Context
  | Handle_payload payload Context
  | Handle_get_locker int locker

text \<open>
  An execution carries the watcher and keeps the history of the calls made into it by
  the helpers, each with the state of the lock at the moment of the call. The bodies of
  the called methods are a parameter: a body may change the watcher in any way, and has
  no access to the history.
\<close>

record exec =
  lw :: leader_watcher
  calls :: "(call \<times> lock_state) list"

type_synonym bodies = "call \<Rightarrow> leader_watcher \<Rightarrow> leader_watcher"

definition invoke :: "bodies \<Rightarrow> call \<Rightarrow> exec \<Rightarrow> exec" where
  "invoke body c x =
     \<lparr>lw = body c (lw x), calls = calls x @ [(c, m_leader_lock (lw x))]\<rparr>"

subsection \<open>\<^verbatim>\<open>LeaderLock\<close>\<close>

text \<open>
  \<^verbatim>\<open>
  bool is_leader() const {
    Mutex::Locker loker(Parent::m_lock);
    return Parent::is_state_post_acquiring() || Parent::is_state_locked();
  }
  \<close>
\<close>

definition is_leader :: "lock_state \<Rightarrow> bool" where
  "is_leader m = (is_state_post_acquiring m \<or> is_state_locked m)"

text \<open>
  \<^verbatim>\<open>
  void post_acquire_lock_handler(int r, Context *on_finish) {
    if (r == 0) {
      // lock is owned at this point
      Mutex::Locker locker(Parent::m_lock);
      Parent::set_state_post_acquiring();
    }
    watcher->handle_post_acquire_leader_lock(r, on_finish);
  }
  \<close>
\<close>

definition post_acquire_lock_handler :: "bodies \<Rightarrow> int \<Rightarrow> Context \<Rightarrow> exec \<Rightarrow> exec" where
  "post_acquire_lock_handler body r on_finish x =
     (let x1 = (if r = 0
                then x\<lparr>lw := (lw x)\<lparr>m_leader_lock :=
                             set_state_post_acquiring (m_leader_lock (lw x))\<rparr>\<rparr>
                else x)
      in invoke body (Handle_post_acquire_leader_lock r on_finish) x1)"

text \<open>
  \<^verbatim>\<open>
  void pre_release_lock_handler(bool shutting_down, Context *on_finish) {
    watcher->handle_pre_release_leader_lock(on_finish);
  }
  void post_release_lock_handler(bool shutting_down, int r, Context *on_finish) {
    watcher->handle_post_release_leader_lock(r, on_finish);
  }
  \<close>
\<close>

definition pre_release_lock_handler :: "bodies \<Rightarrow> bool \<Rightarrow> Context \<Rightarrow> exec \<Rightarrow> exec" where
  "pre_release_lock_handler body shutting_down on_finish x =
     invoke body (Handle_pre_release_leader_lock on_finish) x"

definition post_release_lock_handler ::
  "bodies \<Rightarrow> bool \<Rightarrow> int \<Rightarrow> Context \<Rightarrow> exec \<Rightarrow> exec" where
  "post_release_lock_handler body shutting_down r on_finish x =
     invoke body (Handle_post_release_leader_lock r on_finish) x"

subsection \<open>\<^verbatim>\<open>HandlePayloadVisitor\<close> and \<^verbatim>\<open>C_GetLocker\<close>\<close>

text \<open>
  \<^verbatim>\<open>
  struct HandlePayloadVisitor : public boost::static_visitor<void> {
    LeaderWatcher *leader_watcher;
    Context *on_notify_ack;
    template <typename Payload>
    inline void operator()(const Payload &payload) const {
      leader_watcher->handle_payload(payload, on_notify_ack);
    }
  };
  \<close>
  The visitor is represented by its \<^verbatim>\<open>on_notify_ack\<close>; the watcher it points to is the
  one of the execution.
\<close>

definition HandlePayloadVisitor :: "bodies \<Rightarrow> Context \<Rightarrow> payload \<Rightarrow> exec \<Rightarrow> exec" where
  "HandlePayloadVisitor body on_notify_ack payload x =
     invoke body (Handle_payload payload on_notify_ack) x"

text \<open>
  \<^verbatim>\<open>
  struct C_GetLocker : public Context {
    LeaderWatcher *leader_watcher;
    librbd::managed_lock::Locker locker;
    void finish(int r) override {
      leader_watcher->handle_get_locker(r, locker);
    }
  };
  \<close>
\<close>

definition C_GetLocker_finish :: "bodies \<Rightarrow> locker \<Rightarrow> int \<Rightarrow> exec \<Rightarrow> exec" where
  "C_GetLocker_finish body locker r x = invoke body (Handle_get_locker r locker) x"

section \<open>The methods the header only declares\<close>

text \<open>
  The definitions of the \<^verbatim>\<open>LeaderWatcher\<close> methods (LeaderWatcher.cc) are not part of the
  sources. The ones below are written from the spec and from the state diagram in the
  header's comment; where the two order steps differently, the diagram is followed.
  Requests to the collaborators (object store, watch transport, managed lock, status
  watcher, listener) are recorded in \<open>issued\<close>; the result of a request is an argument of
  the function that continues after it.
\<close>

text \<open>
  The two errno values the spec refers to (\<^verbatim>\<open>ENOENT\<close>, and \<^verbatim>\<open>EEXIST\<close> for "already
  exists"), with their values on Linux; results carry them negated.
\<close>

definition ENOENT :: int where
  "ENOENT = 2"

definition EEXIST :: int where
  "EEXIST = 17"

text \<open>
  Modelled from the spec: completing a context with a result (\<^verbatim>\<open>Context::complete\<close>),
  and issuing a request to a collaborator.
\<close>

definition complete :: "Context \<Rightarrow> int \<Rightarrow> leader_watcher \<Rightarrow> leader_watcher" where
  "complete c r w = w\<lparr>completed := completed w @ [(c, r)]\<rparr>"

definition issue :: "op \<Rightarrow> leader_watcher \<Rightarrow> leader_watcher" where
  "issue a w = w\<lparr>issued := issued w @ [a]\<rparr>"

text \<open>
  Modelled from the spec: \<^verbatim>\<open>cancel_timer_task\<close> and \<^verbatim>\<open>schedule_timer_task\<close>. There is one
  outstanding timer task per instance; arming a new one cancels the previous one first.
\<close>

definition cancel_timer_task :: "leader_watcher \<Rightarrow> leader_watcher" where
  "cancel_timer_task w = w\<lparr>m_timer_task := None\<rparr>"

definition schedule_timer_task ::
  "int \<Rightarrow> bool \<Rightarrow> timer_callback \<Rightarrow> leader_watcher \<Rightarrow> leader_watcher" where
  "schedule_timer_task delay_factor leader callback w =
     (cancel_timer_task w)\<lparr>m_timer_task :=
        Some \<lparr>task_delay_factor = delay_factor, task_leader = leader,
              task_callback = callback\<rparr>\<rparr>"

text \<open>
  Modelled from the spec: the requests \<^verbatim>\<open>create_leader_object\<close>, \<^verbatim>\<open>register_watch\<close>,
  \<^verbatim>\<open>get_locker\<close>, \<^verbatim>\<open>break_leader_lock\<close> and \<^verbatim>\<open>acquire_leader_lock\<close>; the latter resets the
  attempt counter when asked to.
\<close>

definition create_leader_object :: "leader_watcher \<Rightarrow> leader_watcher" where
  "create_leader_object w = issue CREATE_OBJECT w"

definition register_watch :: "leader_watcher \<Rightarrow> leader_watcher" where
  "register_watch w = issue REGISTER_WATCH w"

definition get_locker :: "leader_watcher \<Rightarrow> leader_watcher" where
  "get_locker w = issue GET_LOCKER w"

definition break_leader_lock :: "leader_watcher \<Rightarrow> leader_watcher" where
  "break_leader_lock w = issue BREAK_LOCK w"

definition acquire_leader_lock :: "bool \<Rightarrow> leader_watcher \<Rightarrow> leader_watcher" where
  "acquire_leader_lock reset_attempt_counter w =
     issue ACQUIRE_LEADER_LOCK
       (if reset_attempt_counter then w\<lparr>m_acquire_attempts := 0\<rparr> else w)"

text \<open>
  Modelled from the spec: \<^verbatim>\<open>int init()\<close>. It creates the object, an object that exists
  already counting as created, then registers the watch, then triggers the first
  acquisition with the attempt counter reset. \<open>create_r\<close> and \<open>watch_r\<close> are the results
  of the two requests once the primitives have given up retrying. A failure of either
  is returned, and the instance is uninitialized again.
\<close>

datatype error = ObjectCreateError int | WatchRegisterError int

definition init :: "int \<Rightarrow> int \<Rightarrow> leader_watcher \<Rightarrow> (error + unit) \<times> leader_watcher" where
  "init create_r watch_r w =
     (let w1 = create_leader_object (w\<lparr>role := Initializing\<rparr>) in
      if create_r = 0 \<or> create_r = - EEXIST then
        (let w2 = register_watch w1 in
         if watch_r = 0 then
           (Inr (), acquire_leader_lock True (w2\<lparr>watch_registered := True, role := NonLeader\<rparr>))
         else (Inl (WatchRegisterError watch_r), w2\<lparr>role := Uninitialized\<rparr>))
      else (Inl (ObjectCreateError create_r), w1\<lparr>role := Uninitialized\<rparr>))"

text \<open>
  Modelled from the spec: \<^verbatim>\<open>handle_get_locker\<close>. When the object has vanished (ENOENT)
  the acquisition is attempted again at once. Otherwise the holder, if the query gave
  one, is remembered, and the timer is armed with a delay proportional to the attempt
  counter; when it fires with no sign of life from the holder, the lock is broken.
\<close>

definition handle_get_locker :: "int \<Rightarrow> locker \<Rightarrow> leader_watcher \<Rightarrow> leader_watcher" where
  "handle_get_locker r locker w =
     (if r = - ENOENT then acquire_leader_lock False w
      else schedule_timer_task (m_acquire_attempts w) False Cb_break_leader_lock
             (if r = 0 then w\<lparr>m_locker := Some locker\<rparr> else w))"

text \<open>
  Modelled from the spec: the handlers of the notifications. A leader ignores them. A
  candidate restarts its wait on a heartbeat, schedules a new attempt when the lock was
  acquired by a peer, and attempts at once when the lock was released. Every handler
  acknowledges the notification, an unknown payload being acknowledged and dropped.
\<close>

definition handle_heartbeat :: "Context \<Rightarrow> leader_watcher \<Rightarrow> leader_watcher" where
  "handle_heartbeat on_ack w =
     complete on_ack 0
       (if is_leader (m_leader_lock w) then w
        else schedule_timer_task (m_acquire_attempts w) False Cb_break_leader_lock w)"

definition handle_lock_acquired :: "Context \<Rightarrow> leader_watcher \<Rightarrow> leader_watcher" where
  "handle_lock_acquired on_ack w =
     complete on_ack 0
       (if is_leader (m_leader_lock w) then w
        else schedule_timer_task (m_acquire_attempts w) False Cb_acquire_leader_lock w)"

definition handle_lock_released :: "Context \<Rightarrow> leader_watcher \<Rightarrow> leader_watcher" where
  "handle_lock_released on_ack w =
     complete on_ack 0
       (if is_leader (m_leader_lock w) then w
        else acquire_leader_lock False (cancel_timer_task w))"

fun handle_payload :: "payload \<Rightarrow> Context \<Rightarrow> leader_watcher \<Rightarrow> leader_watcher" where
  "handle_payload HeartbeatPayload on_notify_ack w = handle_heartbeat on_notify_ack w"
| "handle_payload LockAcquiredPayload on_notify_ack w = handle_lock_acquired on_notify_ack w"
| "handle_payload LockReleasedPayload on_notify_ack w = handle_lock_released on_notify_ack w"
| "handle_payload UnknownPayload on_notify_ack w = complete on_notify_ack 0 w"

text \<open>
  The bodies behind the calls of the helpers: the two modelled above, and \<open>rest\<close> for the
  three hooks of the lock, which no definition above depends on.
\<close>

fun watcher_bodies :: "bodies \<Rightarrow> bodies" where
  "watcher_bodies rest (Handle_payload payload on_notify_ack) =
     handle_payload payload on_notify_ack"
| "watcher_bodies rest (Handle_get_locker r locker) = handle_get_locker r locker"
| "watcher_bodies rest c = rest c"

text \<open>
  Modelled from the spec: the release path, the same for a voluntary release and for a
  shutdown: the listener's pre-release hook, the shutdown of the status watcher, the
  release of the lock and the broadcast that it was released.
\<close>

definition release_leader_lock :: "leader_watcher \<Rightarrow> leader_watcher" where
  "release_leader_lock w =
     (issue NOTIFY_LOCK_RELEASED
       (issue RELEASE_LEADER_LOCK
         (issue SHUT_DOWN_STATUS_WATCHER
           (issue NOTIFY_LISTENERS_pre_release w))))
     \<lparr>m_leader_lock := STATE_UNLOCKED, m_status_watcher := False, role := NonLeader\<rparr>"

text \<open>
  Modelled from the spec: \<^verbatim>\<open>void release_leader()\<close>. A leader runs the release path and
  returns to the acquisition loop; an instance that is not the leader does nothing.
\<close>

definition release_leader :: "leader_watcher \<Rightarrow> leader_watcher" where
  "release_leader w =
     (if is_leader (m_leader_lock w) then
        (let w1 = release_leader_lock w
         in schedule_timer_task (m_acquire_attempts w1) False Cb_acquire_leader_lock w1)
      else w)"

text \<open>
  Modelled from the spec: \<^verbatim>\<open>void shut_down()\<close> and \<^verbatim>\<open>void shut_down(Context *on_finish)\<close>.
  An instance that is shut down already is left alone. Otherwise the pending timer task
  is cancelled, the release path runs if the lock is held, then the lock is shut down
  and the watch unregistered. The variant with a context completes it with success.
\<close>

definition shut_down :: "leader_watcher \<Rightarrow> leader_watcher" where
  "shut_down w =
     (if role w = Uninitialized then w
      else
        (let w1 = cancel_timer_task (w\<lparr>role := ShuttingDown\<rparr>);
             w2 = (if is_leader (m_leader_lock w1) then release_leader_lock w1 else w1);
             w3 = issue UNREGISTER_WATCH (issue SHUT_DOWN_LEADER_LOCK w2)
         in w3\<lparr>m_leader_lock := STATE_UNLOCKED, watch_registered := False,
               role := Uninitialized\<rparr>))"

definition shut_down_ctx :: "Context \<Rightarrow> leader_watcher \<Rightarrow> leader_watcher" where
  "shut_down_ctx on_finish w = complete on_finish 0 (shut_down w)"

section \<open>Properties of the inline helpers\<close>

lemma calls_invoke: "calls (invoke body c x) = calls x @ [(c, m_leader_lock (lw x))]"
  by (simp add: invoke_def)

lemma lw_invoke: "lw (invoke body c x) = body c (lw x)"
  by (simp add: invoke_def)

text \<open>
  C2. \<^verbatim>\<open>is_leader()\<close> is true exactly in the post-acquiring and the locked state, and
  false in the unlocked, acquiring, pre-releasing and releasing states.
\<close>

theorem is_leader_iff_post_acquiring_or_locked:
  "is_leader m = (m = STATE_POST_ACQUIRING \<or> m = STATE_LOCKED)
   \<and> \<not> is_leader STATE_UNLOCKED \<and> \<not> is_leader STATE_ACQUIRING
   \<and> \<not> is_leader STATE_PRE_RELEASING \<and> \<not> is_leader STATE_RELEASING
   \<and> is_leader STATE_POST_ACQUIRING \<and> is_leader STATE_LOCKED"
  by (simp add: is_leader_def is_state_post_acquiring_def is_state_locked_def)

text \<open>
  C3. When the lock request has succeeded (\<open>r = 0\<close>), the watcher's post-acquire handler
  is called after the lock has entered the post-acquiring state: the call is recorded
  with that state, in which \<^verbatim>\<open>is_leader()\<close> is true, and the handler's body runs from it.
\<close>

theorem post_acquiring_before_watcher_handler:
  "calls (post_acquire_lock_handler body 0 on_finish x)
     = calls x @ [(Handle_post_acquire_leader_lock 0 on_finish, STATE_POST_ACQUIRING)]
   \<and> is_leader (snd (last (calls (post_acquire_lock_handler body 0 on_finish x))))
   \<and> lw (post_acquire_lock_handler body 0 on_finish x)
     = body (Handle_post_acquire_leader_lock 0 on_finish)
         ((lw x)\<lparr>m_leader_lock := STATE_POST_ACQUIRING\<rparr>)"
  by (simp add: post_acquire_lock_handler_def calls_invoke lw_invoke
      set_state_post_acquiring_def is_leader_def is_state_post_acquiring_def)

text \<open>
  C9. For every result \<open>r\<close>, \<^verbatim>\<open>post_acquire_lock_handler\<close> makes exactly one call into the
  watcher, \<^verbatim>\<open>handle_post_acquire_leader_lock\<close> with the same \<open>r\<close> and the same context. The
  lock is moved to the post-acquiring state before the call when \<open>r = 0\<close> and is left as
  it was otherwise, so after a failure \<^verbatim>\<open>is_leader()\<close> answers at the call what it
  answered before.
\<close>

theorem post_acquire_lock_handler_forwards_result:
  "calls (post_acquire_lock_handler body r on_finish x)
     = calls x @ [(Handle_post_acquire_leader_lock r on_finish,
                   if r = 0 then STATE_POST_ACQUIRING else m_leader_lock (lw x))]
   \<and> lw (post_acquire_lock_handler body r on_finish x)
     = body (Handle_post_acquire_leader_lock r on_finish)
         (if r = 0 then (lw x)\<lparr>m_leader_lock := STATE_POST_ACQUIRING\<rparr> else lw x)
   \<and> is_leader (snd (last (calls (post_acquire_lock_handler body r on_finish x))))
     = (r = 0 \<or> is_leader (m_leader_lock (lw x)))"
  by (simp add: post_acquire_lock_handler_def calls_invoke lw_invoke
      set_state_post_acquiring_def is_leader_def is_state_post_acquiring_def)

text \<open>
  C10. The \<^verbatim>\<open>shutting_down\<close> flag has no influence on \<^verbatim>\<open>pre_release_lock_handler\<close> and
  \<^verbatim>\<open>post_release_lock_handler\<close>: for both values of the flag the whole outcome is the
  same, one call of \<^verbatim>\<open>handle_pre_release_leader_lock\<close> with the context, respectively of
  \<^verbatim>\<open>handle_post_release_leader_lock\<close> with the result and the context.
\<close>

theorem release_handlers_ignore_shutting_down:
  "pre_release_lock_handler body True on_finish x
     = pre_release_lock_handler body False on_finish x
   \<and> post_release_lock_handler body True r on_finish x
     = post_release_lock_handler body False r on_finish x
   \<and> calls (pre_release_lock_handler body shutting_down on_finish x)
     = calls x @ [(Handle_pre_release_leader_lock on_finish, m_leader_lock (lw x))]
   \<and> lw (pre_release_lock_handler body shutting_down on_finish x)
     = body (Handle_pre_release_leader_lock on_finish) (lw x)
   \<and> calls (post_release_lock_handler body shutting_down r on_finish x)
     = calls x @ [(Handle_post_release_leader_lock r on_finish, m_leader_lock (lw x))]
   \<and> lw (post_release_lock_handler body shutting_down r on_finish x)
     = body (Handle_post_release_leader_lock r on_finish) (lw x)"
  by (simp add: pre_release_lock_handler_def post_release_lock_handler_def
      calls_invoke lw_invoke)

section \<open>Properties of the declared methods\<close>

lemma fresh_watcher:
  "role (LeaderWatcher n) = Uninitialized \<and> \<not> watch_registered (LeaderWatcher n)
   \<and> \<not> is_leader (m_leader_lock (LeaderWatcher n)) \<and> issued (LeaderWatcher n) = []"
  by (simp add: LeaderWatcher_def is_leader_def is_state_post_acquiring_def
        is_state_locked_def)

text \<open>
  C4. For every payload variant the visitor makes exactly one call into the watcher, the
  \<^verbatim>\<open>handle_payload\<close> overload of that variant with the acknowledgment context, and
  the watcher it leaves is the one that handler's body produces, whatever the body.
  With the handlers as the spec describes them, the handler run is the overload of the
  variant, and the acknowledgment context is completed exactly once, also for an unknown
  payload.
\<close>

theorem visitor_dispatches_and_acknowledges_once:
  "calls (HandlePayloadVisitor body on_notify_ack p x)
     = calls x @ [(Handle_payload p on_notify_ack, m_leader_lock (lw x))]
   \<and> lw (HandlePayloadVisitor body on_notify_ack p x)
     = body (Handle_payload p on_notify_ack) (lw x)
   \<and> lw (HandlePayloadVisitor (watcher_bodies rest) on_notify_ack p x)
     = handle_payload p on_notify_ack (lw x)
   \<and> completed (lw (HandlePayloadVisitor (watcher_bodies rest) on_notify_ack p x))
     = completed (lw x) @ [(on_notify_ack, 0)]"
  by (cases p)
     (simp_all add: HandlePayloadVisitor_def calls_invoke lw_invoke handle_heartbeat_def
        handle_lock_acquired_def handle_lock_released_def complete_def
        schedule_timer_task_def cancel_timer_task_def acquire_leader_lock_def issue_def)

text \<open>
  C5. On a fresh instance, \<^verbatim>\<open>init\<close> issues the creation of the object, then the
  registration of the watch, then the first acquisition, with the attempt counter at
  zero; an object that exists already counts as created. When the creation or the
  registration fails, \<^verbatim>\<open>init\<close> returns that error, nothing further is issued, and the
  instance is uninitialized, with no watch registered and the lock not held.
\<close>

theorem init_steps_and_unwinding:
  assumes "role w = Uninitialized" and "\<not> watch_registered w"
    and "\<not> is_leader (m_leader_lock w)"
  shows
  "((create_r = 0 \<or> create_r = - EEXIST) \<and> watch_r = 0 \<longrightarrow>
      fst (init create_r watch_r w) = Inr ()
      \<and> issued (snd (init create_r watch_r w))
        = issued w @ [CREATE_OBJECT, REGISTER_WATCH, ACQUIRE_LEADER_LOCK]
      \<and> m_acquire_attempts (snd (init create_r watch_r w)) = 0)
   \<and> (create_r \<noteq> 0 \<and> create_r \<noteq> - EEXIST \<longrightarrow>
      fst (init create_r watch_r w) = Inl (ObjectCreateError create_r)
      \<and> issued (snd (init create_r watch_r w)) = issued w @ [CREATE_OBJECT]
      \<and> role (snd (init create_r watch_r w)) = Uninitialized
      \<and> \<not> watch_registered (snd (init create_r watch_r w))
      \<and> \<not> is_leader (m_leader_lock (snd (init create_r watch_r w))))
   \<and> ((create_r = 0 \<or> create_r = - EEXIST) \<and> watch_r \<noteq> 0 \<longrightarrow>
      fst (init create_r watch_r w) = Inl (WatchRegisterError watch_r)
      \<and> issued (snd (init create_r watch_r w)) = issued w @ [CREATE_OBJECT, REGISTER_WATCH]
      \<and> role (snd (init create_r watch_r w)) = Uninitialized
      \<and> \<not> watch_registered (snd (init create_r watch_r w))
      \<and> \<not> is_leader (m_leader_lock (snd (init create_r watch_r w))))"
  using assms
  by (simp add: init_def Let_def create_leader_object_def register_watch_def
        acquire_leader_lock_def issue_def)

theorem init_steps_and_unwinding_witness:
  "role (LeaderWatcher 7) = Uninitialized \<and> \<not> watch_registered (LeaderWatcher 7)
   \<and> \<not> is_leader (m_leader_lock (LeaderWatcher 7))
   \<and> fst (init 0 0 (LeaderWatcher 7)) = Inr ()
   \<and> issued (snd (init 0 0 (LeaderWatcher 7)))
     = [CREATE_OBJECT, REGISTER_WATCH, ACQUIRE_LEADER_LOCK]
   \<and> fst (init (- 17) 0 (LeaderWatcher 7)) = Inr ()
   \<and> fst (init (- 13) 0 (LeaderWatcher 7)) = Inl (ObjectCreateError (- 13))
   \<and> role (snd (init (- 13) 0 (LeaderWatcher 7))) = Uninitialized
   \<and> \<not> watch_registered (snd (init (- 13) 0 (LeaderWatcher 7)))
   \<and> fst (init 0 (- 110) (LeaderWatcher 7)) = Inl (WatchRegisterError (- 110))
   \<and> role (snd (init 0 (- 110) (LeaderWatcher 7))) = Uninitialized
   \<and> \<not> watch_registered (snd (init 0 (- 110) (LeaderWatcher 7)))"
proof -
  have f: "role (LeaderWatcher 7) = Uninitialized" "\<not> watch_registered (LeaderWatcher 7)"
    "\<not> is_leader (m_leader_lock (LeaderWatcher 7))" "issued (LeaderWatcher 7) = []"
    using fresh_watcher [of 7] by simp_all
  note t = init_steps_and_unwinding [OF f(1) f(2) f(3)]
  show ?thesis
    using f t [of 0 0] t [of "- 17" 0] t [of "- 13" 0] t [of 0 "- 110"]
    by (simp add: EEXIST_def)
qed

text \<open>
  C6. When the get-locker request completes with ENOENT, the completion calls
  \<^verbatim>\<open>handle_get_locker\<close> once, and the only request issued is a new acquisition of the
  lock: the lock is not broken, and the timer task is left as it was.
\<close>

theorem get_locker_enoent_reacquires:
  "calls (C_GetLocker_finish (watcher_bodies rest) locker (- ENOENT) x)
     = calls x @ [(Handle_get_locker (- ENOENT) locker, m_leader_lock (lw x))]
   \<and> issued (lw (C_GetLocker_finish (watcher_bodies rest) locker (- ENOENT) x))
     = issued (lw x) @ [ACQUIRE_LEADER_LOCK]
   \<and> m_timer_task (lw (C_GetLocker_finish (watcher_bodies rest) locker (- ENOENT) x))
     = m_timer_task (lw x)"
  by (simp add: C_GetLocker_finish_def calls_invoke lw_invoke handle_get_locker_def
        acquire_leader_lock_def issue_def)

text \<open>
  C7. From every state \<open>w\<close>, leader, candidate or in the middle of an acquisition,
  \<^verbatim>\<open>shut_down\<close> ends uninitialized, and a second \<^verbatim>\<open>shut_down\<close> changes nothing; with a
  context, the second call only completes the context, with success. On an instance
  \<open>v\<close> that is not the leader, \<^verbatim>\<open>release_leader\<close> changes nothing.
\<close>

theorem shut_down_idempotent_release_noop:
  assumes "\<not> is_leader (m_leader_lock v)"
  shows "release_leader v = v
   \<and> shut_down (shut_down w) = shut_down w
   \<and> shut_down_ctx on_finish (shut_down w) = complete on_finish 0 (shut_down w)
   \<and> role (shut_down w) = Uninitialized"
  using assms
  by (simp add: release_leader_def shut_down_def shut_down_ctx_def Let_def)

theorem shut_down_idempotent_release_noop_witness:
  "\<not> is_leader (m_leader_lock (snd (init 0 0 (LeaderWatcher 7))))
   \<and> release_leader (snd (init 0 0 (LeaderWatcher 7))) = snd (init 0 0 (LeaderWatcher 7))
   \<and> shut_down (shut_down ((LeaderWatcher 7)\<lparr>m_leader_lock := STATE_LOCKED, role := Leader\<rparr>))
     = shut_down ((LeaderWatcher 7)\<lparr>m_leader_lock := STATE_LOCKED, role := Leader\<rparr>)
   \<and> issued (shut_down ((LeaderWatcher 7)\<lparr>m_leader_lock := STATE_LOCKED, role := Leader\<rparr>))
     = [NOTIFY_LISTENERS_pre_release, SHUT_DOWN_STATUS_WATCHER, RELEASE_LEADER_LOCK,
        NOTIFY_LOCK_RELEASED, SHUT_DOWN_LEADER_LOCK, UNREGISTER_WATCH]"
proof -
  have n: "\<not> is_leader (m_leader_lock (snd (init 0 0 (LeaderWatcher 7))))"
    by (simp add: init_def Let_def create_leader_object_def register_watch_def
        acquire_leader_lock_def issue_def LeaderWatcher_def is_leader_def
        is_state_post_acquiring_def is_state_locked_def)
  have i: "issued (shut_down ((LeaderWatcher 7)\<lparr>m_leader_lock := STATE_LOCKED, role := Leader\<rparr>))
     = [NOTIFY_LISTENERS_pre_release, SHUT_DOWN_STATUS_WATCHER, RELEASE_LEADER_LOCK,
        NOTIFY_LOCK_RELEASED, SHUT_DOWN_LEADER_LOCK, UNREGISTER_WATCH]"
    by (simp add: shut_down_def Let_def LeaderWatcher_def is_leader_def
        is_state_post_acquiring_def is_state_locked_def cancel_timer_task_def
        release_leader_lock_def issue_def)
  show ?thesis
    using n i shut_down_idempotent_release_noop [OF n,
        of "(LeaderWatcher 7)\<lparr>m_leader_lock := STATE_LOCKED, role := Leader\<rparr>"]
    by simp
qed

end
